theory Spec2Isabelle
  imports Main "HOL-Library.Sublist" "HOL-Library.AList_Mapping"
begin

section \<open>The agent-pod reconciler of the workflow controller\<close>

text \<open>
  A shallow embedding of \<^verbatim>\<open>workflow/controller/agent.go\<close>. Go strings are
  \<open>string\<close>, slices are lists (a nil slice and an empty one are both \<open>[]\<close>), a
  string-keyed Go map is a partial function or a \<open>mapping\<close>, a pointer that may be nil is an \<open>option\<close>.
  A Go function returning a value with an \<^verbatim>\<open>error\<close> is modelled by the same tuple, the
  error being \<open>None\<close> for nil, so that a nil pointer next to a nil error stays visible.
  Calls that leave the file (the informer store, the config-map lister, the pod creation
  API, \<^verbatim>\<open>markWorkflowError\<close>) append an event to a trace that every effectful function
  takes and returns. The output of the logging calls is not part of the model; a pointer read
  for the sake of a log line is.
\<close>

subsection \<open>Objects of the cluster API\<close>

type_synonym podPhase = string

text \<open>
  Modelled from the spec: the constants of the Kubernetes and workflow API packages are not
  among the sources. The phase table of the spec names the pod phases Succeeded, Running,
  Pending and Failed and the workflow phases Failed and Error; both phase types are strings.
\<close>

definition PodPending :: podPhase where
  "PodPending = ''Pending''"

definition PodRunning :: podPhase where
  "PodRunning = ''Running''"

definition PodSucceeded :: podPhase where
  "PodSucceeded = ''Succeeded''"

definition PodFailed :: podPhase where
  "PodFailed = ''Failed''"

type_synonym workflowPhase = string

definition WorkflowFailed :: workflowPhase where
  "WorkflowFailed = ''Failed''"

definition WorkflowError :: workflowPhase where
  "WorkflowError = ''Error''"

text \<open>
  Modelled from the spec: the restart policy constant, "restart only on failure".
\<close>

definition RestartPolicyOnFailure :: string where
  "RestartPolicyOnFailure = ''OnFailure''"

record envVar =
  ev_name :: string
  ev_value :: string

record container =
  c_name :: string
  c_image :: string
  c_command :: "string list"
  c_args :: "string list"
  c_env :: "envVar list"

record ownerReference =
  or_apiVersion :: string
  or_kind :: string
  or_name :: string
  or_uid :: string
  or_controller :: bool
  or_blockOwnerDeletion :: bool

record objectMeta =
  meta_name :: string
  meta_namespace :: string
  meta_labels :: "string \<rightharpoonup> string"
  meta_ownerReferences :: "ownerReference list"

record podSpec =
  spec_restartPolicy :: string
  spec_imagePullSecrets :: "string list"
  spec_containers :: "container list"
  spec_serviceAccountName :: string

record podStatus =
  status_phase :: podPhase
  status_message :: string

record pod =
  pod_meta :: objectMeta
  pod_spec :: podSpec
  pod_status :: podStatus

record configMap =
  cm_name :: string
  cm_data :: "string \<rightharpoonup> string"

record workflow =
  wf_name :: string
  wf_namespace :: string
  wf_uid :: string
  wf_serviceAccountName :: string
  wf_imagePullSecrets :: "string list"

subsection \<open>Errors, collaborators and the operation context\<close>

datatype statusReason = StatusReasonAlreadyExists | StatusReasonOther

text \<open>An error of the cluster API: its reason and its text.\<close>

datatype apiError = StatusError statusReason string

fun IsAlreadyExists :: "apiError \<Rightarrow> bool" where
  "IsAlreadyExists (StatusError r _) = (r = StatusReasonAlreadyExists)"

text \<open>
  The errors the file returns: the informer store's error wrapped (line 74), the lister's
  error passed on (line 152), a descriptor field and the parser's error (lines 158, 163),
  the creation error wrapped (line 136).
\<close>

datatype agentError =
    InformerStoreError string
  | ConfigMapsError string
  | ParseError string string
  | InternalWrapError apiError

text \<open>What the informer store holds under a key: a pod, or an object of another type.\<close>

datatype storeObj = PodObj pod | OtherObj

text \<open>
  The controller: its configuration and its three collaborators, each given by what it
  answers during one reconcile pass. \<open>store_Get\<close> answers \<^verbatim>\<open>(obj, exists, err)\<close>;
  \<open>pods_Create\<close> answers the pair \<^verbatim>\<open>(created, err)\<close> of the client, for a namespace
  and a pod.
\<close>

record controller =
  ctl_namespace :: string
  ctl_plugins :: bool
  ctl_instanceID :: string
  ctl_executorImage :: string
  store_Get :: "string \<Rightarrow> storeObj option \<times> bool \<times> string option"
  getConfigMaps :: "string \<Rightarrow> string \<Rightarrow> string + configMap list"
  pods_Create :: "string \<Rightarrow> pod \<Rightarrow> pod option \<times> apiError option"

text \<open>
  What the file takes from other packages: the label and environment names of package
  \<^verbatim>\<open>common\<close>, the group, version and kind of the workflow resource, the YAML parser
  (\<open>Inl\<close> its error), the JSON serialiser, the hash behind \<^verbatim>\<open>NodeID\<close>, and the Go
  runtime's choice of the order in which a two-key map is ranged over.
\<close>

record deps =
  LabelKeyWorkflow :: string
  LabelKeyCompleted :: string
  LabelKeyControllerInstanceID :: string
  EnvVarWorkflowName :: string
  EnvVarPluginAddresses :: string
  WorkflowAPIVersion :: string
  WorkflowKind :: string
  yaml_Unmarshal :: "string \<Rightarrow> string + string list"
  MustMarshallJSON :: "string list \<Rightarrow> string"
  nodeHash :: "string \<Rightarrow> string \<Rightarrow> string"
  rangeSwapped :: bool

type_synonym template = string

record wfOperationCtx =
  wf :: workflow
  execWf :: workflow
  taskSet :: "(string, template) mapping"
  ctl :: controller

datatype event =
    StoreGet string
  | GetConfigMaps string string
  | PodsCreate string pod
  | MarkWorkflowError string

text \<open>A call either returns or panics on a nil pointer.\<close>

datatype 'a outcome = Return 'a | Panic

subsection \<open>The name of the agent pod\<close>

text \<open>
  Modelled from the spec: the method \<^verbatim>\<open>NodeID\<close> of the workflow type is not among the
  sources. The spec: "Name = deterministic function of the workflow identifier (must be
  stable and collision-free across the cluster, e.g. a hash/derivation incorporating the
  identifier plus a fixed suffix)". The derivation is the parameter \<open>nodeHash\<close>, applied to
  the workflow's identifier and the node name.
\<close>

definition NodeID :: "deps \<Rightarrow> workflow \<Rightarrow> string \<Rightarrow> string" where
  "NodeID d w nodeName = nodeHash d (wf_name w) nodeName"

definition getAgentPodName :: "deps \<Rightarrow> wfOperationCtx \<Rightarrow> string" where
  "getAgentPodName d woc = NodeID d (wf woc) ''agent'' @ ''-agent''"

definition isAgentPod :: "deps \<Rightarrow> wfOperationCtx \<Rightarrow> pod \<Rightarrow> bool" where
  "isAgentPod d woc p \<longleftrightarrow> meta_name (pod_meta p) = getAgentPodName d woc"

subsection \<open>Assessing the pod's phase\<close>

definition assessAgentPodStatus :: "pod \<Rightarrow> workflowPhase \<times> string" where
  "assessAgentPodStatus p =
     (let phase = status_phase (pod_status p) in
      if phase = PodSucceeded \<or> phase = PodRunning \<or> phase = PodPending then ('''', '''')
      else if phase = PodFailed then (WorkflowFailed, status_message (pod_status p))
      else (WorkflowError,
            ''Unexpected pod phase for '' @ meta_name (pod_meta p) @ '': '' @ phase))"

definition updateAgentPodStatus :: "wfOperationCtx \<Rightarrow> pod \<Rightarrow> event list \<Rightarrow> event list" where
  "updateAgentPodStatus woc p tr =
     (case assessAgentPodStatus p of
        (newPhase, message) \<Rightarrow>
          if newPhase = WorkflowFailed \<or> newPhase = WorkflowError
          then tr @ [MarkWorkflowError (''agent pod failed with reason '' @ message)]
          else tr)"

subsection \<open>Plugin discovery\<close>

text \<open>
  The inner loop of \<^verbatim>\<open>getAgentPlugins\<close> (lines 154 to 179) over the config maps of
  one namespace, with the two slices built so far. A field that does not parse leaves the
  whole function with \<^verbatim>\<open>nil, nil\<close> and the error.
\<close>

fun rangeConfigMaps ::
  "deps \<Rightarrow> configMap list \<Rightarrow> container list \<Rightarrow> string list \<Rightarrow>
     container list \<times> string list \<times> agentError option" where
  "rangeConfigMaps d [] sidecars addresses = (sidecars, addresses, None)"
| "rangeConfigMaps d (cm # cms) sidecars addresses =
     (case (case cm_data cm ''command'' of
              None \<Rightarrow> Inr []
            | Some v \<Rightarrow> (case yaml_Unmarshal d v of
                          Inl err \<Rightarrow> Inl (ParseError v err)
                        | Inr xs \<Rightarrow> Inr xs)) of
        Inl e \<Rightarrow> ([], [], Some e)
      | Inr command \<Rightarrow>
          (case (case cm_data cm ''args'' of
                   None \<Rightarrow> Inr []
                 | Some v \<Rightarrow> (case yaml_Unmarshal d v of
                               Inl err \<Rightarrow> Inl (ParseError v err)
                             | Inr xs \<Rightarrow> Inr xs)) of
             Inl e \<Rightarrow> ([], [], Some e)
           | Inr args \<Rightarrow>
               (let image = (case cm_data cm ''image'' of None \<Rightarrow> '''' | Some v \<Rightarrow> v);
                    address = (case cm_data cm ''address'' of None \<Rightarrow> '''' | Some v \<Rightarrow> v)
                in rangeConfigMaps d cms
                     (sidecars @ [\<lparr>c_name = cm_name cm, c_image = image,
                                  c_command = command, c_args = args, c_env = []\<rparr>])
                     (addresses @ [address]))))"

text \<open>
  The keys of the map \<^verbatim>\<open>namespaces\<close> (lines 146 to 148) in the order the runtime
  ranges over them: one key when the controller's namespace is the workflow's.
\<close>

definition namespaceKeys :: "deps \<Rightarrow> wfOperationCtx \<Rightarrow> string list" where
  "namespaceKeys d woc =
     (let a = ctl_namespace (ctl woc); b = wf_namespace (wf woc) in
      if a = b then [a] else if rangeSwapped d then [b, a] else [a, b])"

text \<open>The outer loop (lines 149 to 180) over the namespaces.\<close>

fun rangeNamespaces ::
  "deps \<Rightarrow> wfOperationCtx \<Rightarrow> string list \<Rightarrow> container list \<Rightarrow> string list \<Rightarrow> event list \<Rightarrow>
     (container list \<times> string list \<times> agentError option) \<times> event list" where
  "rangeNamespaces d woc [] sidecars addresses tr = ((sidecars, addresses, None), tr)"
| "rangeNamespaces d woc (ns # nss) sidecars addresses tr =
     (case getConfigMaps (ctl woc) ns ''AgentPlugin'' of
        Inl err \<Rightarrow>
          (([], [], Some (ConfigMapsError err)), tr @ [GetConfigMaps ns ''AgentPlugin''])
      | Inr cms \<Rightarrow>
          (case rangeConfigMaps d cms sidecars addresses of
             (sidecars', addresses', None) \<Rightarrow>
               rangeNamespaces d woc nss sidecars' addresses'
                 (tr @ [GetConfigMaps ns ''AgentPlugin''])
           | (_, _, Some e) \<Rightarrow>
               (([], [], Some e), tr @ [GetConfigMaps ns ''AgentPlugin''])))"

definition getAgentPlugins ::
  "deps \<Rightarrow> wfOperationCtx \<Rightarrow> event list \<Rightarrow>
     (container list \<times> string list \<times> agentError option) \<times> event list" where
  "getAgentPlugins d woc tr =
     (if ctl_plugins (ctl woc) then rangeNamespaces d woc (namespaceKeys d woc) [] [] tr
      else (([], [], None), tr))"

subsection \<open>Creating the agent pod\<close>

definition NewControllerRef :: "deps \<Rightarrow> workflow \<Rightarrow> ownerReference" where
  "NewControllerRef d w =
     \<lparr>or_apiVersion = WorkflowAPIVersion d, or_kind = WorkflowKind d, or_name = wf_name w,
      or_uid = wf_uid w, or_controller = True, or_blockOwnerDeletion = True\<rparr>"

text \<open>
  The pod that \<^verbatim>\<open>createAgentPod\<close> builds in lines 89 to 125: the pod literal, then
  the instance label and the service account when they are set.
\<close>

definition agentPod ::
  "deps \<Rightarrow> wfOperationCtx \<Rightarrow> string \<Rightarrow> container list \<Rightarrow> string list \<Rightarrow> pod" where
  "agentPod d woc podName pluginSidecars pluginAddresses =
     (let labels = [LabelKeyWorkflow d \<mapsto> wf_name (wf woc), LabelKeyCompleted d \<mapsto> ''false''];
          main = \<lparr>c_name = ''main'', c_image = ctl_executorImage (ctl woc),
                  c_command = [''argoexec''], c_args = [''agent''],
                  c_env = [\<lparr>ev_name = EnvVarWorkflowName d, ev_value = wf_name (wf woc)\<rparr>,
                           \<lparr>ev_name = EnvVarPluginAddresses d,
                            ev_value = MustMarshallJSON d pluginAddresses\<rparr>]\<rparr>
      in \<lparr>pod_meta =
            \<lparr>meta_name = podName,
             meta_namespace = wf_namespace (wf woc),
             meta_labels =
               (if ctl_instanceID (ctl woc) \<noteq> ''''
                then labels(LabelKeyControllerInstanceID d \<mapsto> ctl_instanceID (ctl woc))
                else labels),
             meta_ownerReferences = [NewControllerRef d (wf woc)]\<rparr>,
          pod_spec =
            \<lparr>spec_restartPolicy = RestartPolicyOnFailure,
             spec_imagePullSecrets = wf_imagePullSecrets (execWf woc),
             spec_containers = pluginSidecars @ [main],
             spec_serviceAccountName =
               (if wf_serviceAccountName (wf woc) \<noteq> '''' then wf_serviceAccountName (wf woc)
                else '''')\<rparr>,
          pod_status = \<lparr>status_phase = '''', status_message = ''''\<rparr>\<rparr>)"

text \<open>
  \<^verbatim>\<open>createAgentPod\<close>. The pointer \<^verbatim>\<open>created\<close> is returned as the client gave it
  when the creation error is "already exists" (line 133); after a creation without error,
  line 138 reads \<^verbatim>\<open>created.Name\<close>.
\<close>

definition createAgentPod ::
  "deps \<Rightarrow> wfOperationCtx \<Rightarrow> event list \<Rightarrow>
     (pod option \<times> agentError option) outcome \<times> event list" where
  "createAgentPod d woc tr =
     (let podName = getAgentPodName d woc;
          key = wf_namespace (wf woc) @ ''/'' @ podName;
          tr1 = tr @ [StoreGet key]
      in case store_Get (ctl woc) key of
           (obj, exists, Some err) \<Rightarrow> (Return (None, Some (InformerStoreError err)), tr1)
         | (obj, exists, None) \<Rightarrow>
             (case (if exists then obj else None) of
                Some (PodObj existing) \<Rightarrow> (Return (Some existing, None), tr1)
              | _ \<Rightarrow>
                  (case getAgentPlugins d woc tr1 of
                     ((_, _, Some err), tr2) \<Rightarrow> (Return (None, Some err), tr2)
                   | ((pluginSidecars, pluginAddresses, None), tr2) \<Rightarrow>
                       (let p = agentPod d woc podName pluginSidecars pluginAddresses;
                            tr3 = tr2 @ [PodsCreate (wf_namespace (wf woc)) p]
                        in case pods_Create (ctl woc) (wf_namespace (wf woc)) p of
                             (created, Some err) \<Rightarrow>
                               if IsAlreadyExists err then (Return (created, None), tr3)
                               else (Return (None, Some (InternalWrapError err)), tr3)
                           | (created, None) \<Rightarrow>
                               (case created of
                                  None \<Rightarrow> (Panic, tr3)
                                | Some c \<Rightarrow> (Return (created, None), tr3))))))"

subsection \<open>One reconcile pass\<close>

definition reconcileAgentPod ::
  "deps \<Rightarrow> wfOperationCtx \<Rightarrow> event list \<Rightarrow> agentError option outcome \<times> event list" where
  "reconcileAgentPod d woc tr =
     (if Mapping.size (taskSet woc) = 0 then (Return None, tr)
      else case createAgentPod d woc tr of
             (Panic, tr1) \<Rightarrow> (Panic, tr1)
           | (Return (_, Some err), tr1) \<Rightarrow> (Return (Some err), tr1)
           | (Return (None, None), tr1) \<Rightarrow> (Panic, tr1)
           | (Return (Some p, None), tr1) \<Rightarrow>
               if status_phase (pod_status p) \<noteq> ''''
               then (Return None, updateAgentPodStatus woc p tr1)
               else (Return None, tr1))"

subsection \<open>Notions used to state the properties\<close>

text \<open>The messages handed to \<^verbatim>\<open>markWorkflowError\<close>, in order.\<close>

fun markCalls :: "event list \<Rightarrow> string list" where
  "markCalls [] = []"
| "markCalls (MarkWorkflowError m # es) = m # markCalls es"
| "markCalls (_ # es) = markCalls es"

text \<open>A descriptor whose \<^verbatim>\<open>command\<close> or \<^verbatim>\<open>args\<close> field the YAML parser rejects.\<close>

definition malformed :: "deps \<Rightarrow> configMap \<Rightarrow> bool" where
  "malformed d cm \<longleftrightarrow>
     (case cm_data cm ''command'' of None \<Rightarrow> False | Some v \<Rightarrow> isl (yaml_Unmarshal d v)) \<or>
     (case cm_data cm ''args'' of None \<Rightarrow> False | Some v \<Rightarrow> isl (yaml_Unmarshal d v))"

text \<open>A plain field of a descriptor: the empty string when it is absent.\<close>

definition dataField :: "configMap \<Rightarrow> string \<Rightarrow> string" where
  "dataField cm k = (case cm_data cm k of None \<Rightarrow> '''' | Some v \<Rightarrow> v)"

text \<open>
  The descriptors in the order one discovery call enumerates them: the listings of the
  namespaces, one after the other.
\<close>

definition listing :: "wfOperationCtx \<Rightarrow> string \<Rightarrow> configMap list" where
  "listing woc ns =
     (case getConfigMaps (ctl woc) ns ''AgentPlugin'' of Inl _ \<Rightarrow> [] | Inr cms \<Rightarrow> cms)"

definition enumerated :: "deps \<Rightarrow> wfOperationCtx \<Rightarrow> configMap list" where
  "enumerated d woc =
     (if ctl_plugins (ctl woc) then concat (map (listing woc) (namespaceKeys d woc)) else [])"

text \<open>The key under which the informer store is asked for the agent pod.\<close>

definition agentPodKey :: "deps \<Rightarrow> wfOperationCtx \<Rightarrow> string" where
  "agentPodKey d woc = wf_namespace (wf woc) @ ''/'' @ getAgentPodName d woc"

subsection \<open>Concrete runs\<close>

text \<open>
  Stand-ins for the other packages: a parser that knows two well-formed arrays, a
  serialiser writing a bracketed, comma-separated list of quoted strings, and a derivation
  joining identifier and node name.
\<close>

fun joinComma :: "string list \<Rightarrow> string" where
  "joinComma [] = ''''"
| "joinComma [x] = x"
| "joinComma (x # y # ys) = x @ '','' @ joinComma (y # ys)"

definition demoDeps :: deps where
  "demoDeps =
     \<lparr>LabelKeyWorkflow = ''workflows.argoproj.io/workflow'',
      LabelKeyCompleted = ''workflows.argoproj.io/completed'',
      LabelKeyControllerInstanceID = ''workflows.argoproj.io/controller-instanceid'',
      EnvVarWorkflowName = ''ARGO_WORKFLOW_NAME'',
      EnvVarPluginAddresses = ''ARGO_PLUGIN_ADDRESSES'',
      WorkflowAPIVersion = ''argoproj.io/v1alpha1'',
      WorkflowKind = ''Workflow'',
      yaml_Unmarshal =
        (\<lambda>v. if v = ''[sh, -c]'' then Inr [''sh'', ''-c'']
             else if v = ''[serve]'' then Inr [''serve'']
             else Inl ''cannot unmarshal into []string''),
      MustMarshallJSON =
        (\<lambda>xs. ''['' @ joinComma (map (\<lambda>x. [CHR 0x22] @ x @ [CHR 0x22]) xs) @ '']''),
      nodeHash = (\<lambda>w n. w @ ''-'' @ n),
      rangeSwapped = False\<rparr>"

definition helloWf :: workflow where
  "helloWf =
     \<lparr>wf_name = ''hello'', wf_namespace = ''team-a'', wf_uid = ''uid-1'',
      wf_serviceAccountName = '''', wf_imagePullSecrets = []\<rparr>"

definition plugin1 :: configMap where
  "plugin1 =
     \<lparr>cm_name = ''p1'',
      cm_data = [''image'' \<mapsto> ''img1'', ''address'' \<mapsto> ''10.0.0.1:50051'',
                 ''command'' \<mapsto> ''[sh, -c]'']\<rparr>"

definition plugin2 :: configMap where
  "plugin2 =
     \<lparr>cm_name = ''p2'',
      cm_data = [''image'' \<mapsto> ''img2'', ''address'' \<mapsto> ''10.0.0.2:50051'',
                 ''args'' \<mapsto> ''[serve]'']\<rparr>"

definition pluginBad :: configMap where
  "pluginBad =
     \<lparr>cm_name = ''p3'',
      cm_data = [''image'' \<mapsto> ''img3'', ''address'' \<mapsto> ''10.0.0.3:50051'',
                 ''args'' \<mapsto> ''{serve''] \<rparr>"

text \<open>
  A controller with an empty informer store, one descriptor in its own namespace and the
  given ones in the workflow's namespace, and a creation API that answers as given.
\<close>

definition demoCtl ::
  "configMap list \<Rightarrow> (pod \<Rightarrow> pod option \<times> apiError option) \<Rightarrow> controller" where
  "demoCtl cms create =
     \<lparr>ctl_namespace = ''argo'', ctl_plugins = True, ctl_instanceID = '''',
      ctl_executorImage = ''argoexec:latest'',
      store_Get = (\<lambda>key. (None, False, None)),
      getConfigMaps =
        (\<lambda>ns role. if ns = ''argo'' then Inr [plugin1]
                    else if ns = ''team-a'' then Inr cms else Inr []),
      pods_Create = (\<lambda>ns. create)\<rparr>"

definition demoWoc :: "controller \<Rightarrow> wfOperationCtx" where
  "demoWoc c = \<lparr>wf = helloWf, execWf = helloWf, taskSet = Mapping.update ''task-1'' ''http'' Mapping.empty,
      ctl = c\<rparr>"

text \<open>The creation API accepting the pod and answering it back unchanged.\<close>

definition createOk :: "pod \<Rightarrow> pod option \<times> apiError option" where
  "createOk p = (Some p, None)"

text \<open>
  The creation API losing a race: the name is taken, and the client answers the error
  together with the given pointer.
\<close>

definition createExists :: "pod option \<Rightarrow> pod \<Rightarrow> pod option \<times> apiError option" where
  "createExists r p =
     (r, Some (StatusError StatusReasonAlreadyExists ''pods hello-agent-agent already exists''))"

text \<open>A cached agent pod in a given phase, and a controller whose informer store holds it.\<close>

definition cachedPod :: "podPhase \<Rightarrow> string \<Rightarrow> pod" where
  "cachedPod phase msg =
     \<lparr>pod_meta = \<lparr>meta_name = ''hello-agent-agent'', meta_namespace = ''team-a'',
                  meta_labels = Map.empty, meta_ownerReferences = []\<rparr>,
      pod_spec = \<lparr>spec_restartPolicy = RestartPolicyOnFailure, spec_imagePullSecrets = [],
                  spec_containers = [], spec_serviceAccountName = ''''\<rparr>,
      pod_status = \<lparr>status_phase = phase, status_message = msg\<rparr>\<rparr>"

definition cacheCtl :: "pod \<Rightarrow> controller" where
  "cacheCtl p = (demoCtl [] createOk)\<lparr>store_Get := (\<lambda>key. (Some (PodObj p), True, None))\<rparr>"

section \<open>Facts about the loops and the trace\<close>

lemma markCalls_append: "markCalls (xs @ ys) = markCalls xs @ markCalls ys"
  by (induction xs rule: markCalls.induct) simp_all

lemma markCalls_GetConfigMaps: "markCalls (map (\<lambda>ns. GetConfigMaps ns r) ks) = []"
  by (induction ks) simp_all

lemma rangeConfigMaps_error:
  "rangeConfigMaps d cms sc ad = (sc', ad', Some e) \<Longrightarrow>
     sc' = [] \<and> ad' = [] \<and> (\<exists>v pe. e = ParseError v pe)"
  by (induction cms arbitrary: sc ad) (auto simp: Let_def split: option.splits sum.splits)

lemma rangeConfigMaps_malformed:
  "cm \<in> set cms \<Longrightarrow> malformed d cm \<Longrightarrow>
     \<exists>v pe. rangeConfigMaps d cms sc ad = ([], [], Some (ParseError v pe))"
proof (induction cms arbitrary: sc ad)
  case Nil
  then show ?case by simp
next
  case (Cons c cms)
  show ?case
  proof (cases "malformed d c")
    case True
    then show ?thesis
      by (auto simp: malformed_def Let_def split: option.splits sum.splits)
  next
    case False
    with Cons.prems have "cm \<in> set cms" by auto
    from Cons.IH[OF this Cons.prems(2)] show ?thesis
      by (auto simp: Let_def split: option.splits sum.splits)
  qed
qed

lemma rangeConfigMaps_ok:
  "rangeConfigMaps d cms sc ad = (sc', ad', None) \<Longrightarrow>
     ad' = ad @ map (\<lambda>cm. dataField cm ''address'') cms \<and>
     map c_name sc' = map c_name sc @ map cm_name cms \<and>
     map c_image sc' = map c_image sc @ map (\<lambda>cm. dataField cm ''image'') cms"
proof (induction cms arbitrary: sc ad)
  case Nil
  then show ?case by simp
next
  case (Cons c cms)
  from Cons.prems obtain command args where
    step: "rangeConfigMaps d cms
             (sc @ [\<lparr>c_name = cm_name c, c_image = dataField c ''image'',
                     c_command = command, c_args = args, c_env = []\<rparr>])
             (ad @ [dataField c ''address'']) = (sc', ad', None)"
    by (auto simp: Let_def dataField_def split: option.splits sum.splits)
  from Cons.IH[OF step] show ?case by simp
qed

lemma rangeNamespaces_trace:
  "\<exists>ks. snd (rangeNamespaces d woc nss sc ad tr) = tr @ map (\<lambda>ns. GetConfigMaps ns ''AgentPlugin'') ks"
proof (induction nss arbitrary: sc ad tr)
  case Nil
  show ?case by (rule exI[of _ "[]"]) simp
next
  case (Cons ns nss)
  show ?case
  proof (cases "getConfigMaps (ctl woc) ns ''AgentPlugin''")
    case (Inl err)
    then show ?thesis by (intro exI[of _ "[ns]"]) simp
  next
    case (Inr cms)
    obtain sc' ad' e where r: "rangeConfigMaps d cms sc ad = (sc', ad', e)"
      by (cases "rangeConfigMaps d cms sc ad") auto
    show ?thesis
    proof (cases e)
      case None
      from Cons.IH[of sc' ad' "tr @ [GetConfigMaps ns ''AgentPlugin'']"]
      obtain ks where "snd (rangeNamespaces d woc nss sc' ad' (tr @ [GetConfigMaps ns ''AgentPlugin'']))
          = (tr @ [GetConfigMaps ns ''AgentPlugin'']) @ map (\<lambda>ns. GetConfigMaps ns ''AgentPlugin'') ks"
        by blast
      with Inr r None show ?thesis by (intro exI[of _ "ns # ks"]) simp
    next
      case (Some a)
      with Inr r show ?thesis by (intro exI[of _ "[ns]"]) simp
    qed
  qed
qed

lemma rangeNamespaces_error:
  "rangeNamespaces d woc nss sc ad tr = ((sc', ad', Some e), tr') \<Longrightarrow> sc' = [] \<and> ad' = []"
  by (induction nss arbitrary: sc ad tr)
     (auto split: sum.splits prod.splits option.splits)

lemma rangeNamespaces_ok:
  "rangeNamespaces d woc nss sc ad tr = ((sc', ad', None), tr') \<Longrightarrow>
     ad' = ad @ map (\<lambda>cm. dataField cm ''address'') (concat (map (listing woc) nss)) \<and>
     map c_name sc' = map c_name sc @ map cm_name (concat (map (listing woc) nss)) \<and>
     map c_image sc' =
       map c_image sc @ map (\<lambda>cm. dataField cm ''image'') (concat (map (listing woc) nss))"
proof (induction nss arbitrary: sc ad tr)
  case Nil
  then show ?case by simp
next
  case (Cons ns nss)
  from Cons.prems obtain cms sc1 ad1 where
    l: "getConfigMaps (ctl woc) ns ''AgentPlugin'' = Inr cms" and
    r: "rangeConfigMaps d cms sc ad = (sc1, ad1, None)" and
    rest: "rangeNamespaces d woc nss sc1 ad1 (tr @ [GetConfigMaps ns ''AgentPlugin'']) =
             ((sc', ad', None), tr')"
    by (auto split: sum.splits prod.splits option.splits)
  from l have "listing woc ns = cms" by (simp add: listing_def)
  with rangeConfigMaps_ok[OF r] Cons.IH[OF rest] show ?case by simp
qed

lemma rangeNamespaces_malformed:
  assumes "\<forall>ns\<in>set nss. \<exists>cms. getConfigMaps (ctl woc) ns ''AgentPlugin'' = Inr cms"
    and "ns \<in> set nss" and "cm \<in> set (listing woc ns)" and "malformed d cm"
  shows "\<exists>v pe. fst (rangeNamespaces d woc nss sc ad tr) = ([], [], Some (ParseError v pe))"
  using assms
proof (induction nss arbitrary: sc ad tr)
  case Nil
  then show ?case by simp
next
  case (Cons n nss)
  from Cons.prems(1) obtain cms where l: "getConfigMaps (ctl woc) n ''AgentPlugin'' = Inr cms"
    by auto
  obtain sc1 ad1 e where r: "rangeConfigMaps d cms sc ad = (sc1, ad1, e)"
    by (cases "rangeConfigMaps d cms sc ad") auto
  show ?case
  proof (cases e)
    case (Some err)
    from rangeConfigMaps_error[OF r[unfolded Some]] l r Some show ?thesis by auto
  next
    case None
    have "ns \<noteq> n"
    proof
      assume "ns = n"
      with Cons.prems(3) l have "cm \<in> set cms" by (simp add: listing_def)
      from rangeConfigMaps_malformed[OF this Cons.prems(4), of sc ad] r None show False by simp
    qed
    with Cons.prems have "ns \<in> set nss" by simp
    from Cons.IH[OF _ this Cons.prems(3) Cons.prems(4)] Cons.prems(1) l r None
    show ?thesis by simp
  qed
qed

lemma getAgentPlugins_trace:
  "\<exists>ks. snd (getAgentPlugins d woc tr) = tr @ map (\<lambda>ns. GetConfigMaps ns ''AgentPlugin'') ks"
proof (cases "ctl_plugins (ctl woc)")
  case True
  then show ?thesis using rangeNamespaces_trace by (simp add: getAgentPlugins_def)
next
  case False
  then show ?thesis by (intro exI[of _ "[]"]) (simp add: getAgentPlugins_def)
qed

lemma getAgentPlugins_error:
  "getAgentPlugins d woc tr = ((sc, ad, Some e), tr') \<Longrightarrow> sc = [] \<and> ad = []"
  by (auto simp: getAgentPlugins_def dest: rangeNamespaces_error split: if_splits)

lemma createAgentPod_trace:
  "\<exists>tail. snd (createAgentPod d woc tr) = tr @ tail \<and> markCalls tail = []"
proof -
  let ?key = "wf_namespace (wf woc) @ ''/'' @ getAgentPodName d woc"
  obtain ks where ks: "snd (getAgentPlugins d woc (tr @ [StoreGet ?key])) =
      (tr @ [StoreGet ?key]) @ map (\<lambda>ns. GetConfigMaps ns ''AgentPlugin'') ks"
    using getAgentPlugins_trace by blast
  obtain r tr2 where g: "getAgentPlugins d woc (tr @ [StoreGet ?key]) = (r, tr2)"
    by (cases "getAgentPlugins d woc (tr @ [StoreGet ?key])") auto
  with ks have tr2: "tr2 = tr @ StoreGet ?key # map (\<lambda>ns. GetConfigMaps ns ''AgentPlugin'') ks"
    by simp
  have m: "markCalls (StoreGet ?key # map (\<lambda>ns. GetConfigMaps ns ''AgentPlugin'') ks) = []"
    by (simp add: markCalls_GetConfigMaps)
  have m2: "markCalls (StoreGet ?key # map (\<lambda>ns. GetConfigMaps ns ''AgentPlugin'') ks @ [PodsCreate n p]) = []" for n p
    by (simp add: markCalls_GetConfigMaps markCalls_append)
  show ?thesis
    unfolding createAgentPod_def Let_def
    using g tr2 m m2
    by (auto split: prod.splits option.splits storeObj.splits if_splits)
qed

lemma createAgentPod_nil_only_on_AlreadyExists:
  "fst (createAgentPod d woc tr) = Return (None, None) \<Longrightarrow>
     \<exists>p e. pods_Create (ctl woc) (wf_namespace (wf woc)) p = (None, Some e) \<and> IsAlreadyExists e"
  unfolding createAgentPod_def Let_def
  by (auto split: prod.splits option.splits storeObj.splits if_splits)

text \<open>
  Any run that misses the informer store, discovers its plugins and is told "already
  exists" by the creation API ends with the pointer of that answer and a nil error.
\<close>

lemma createAgentPod_on_AlreadyExists:
  assumes "store_Get (ctl woc) (agentPodKey d woc) = (obj, exists, None)"
    and "\<not> exists \<or> (\<forall>p. obj \<noteq> Some (PodObj p))"
    and "getAgentPlugins d woc (tr @ [StoreGet (agentPodKey d woc)]) = ((sc, ad, None), tr2)"
    and "pods_Create (ctl woc) (wf_namespace (wf woc))
           (agentPod d woc (getAgentPodName d woc) sc ad) = (r, Some e)"
    and "IsAlreadyExists e"
  shows "createAgentPod d woc tr =
     (Return (r, None),
      tr2 @ [PodsCreate (wf_namespace (wf woc)) (agentPod d woc (getAgentPodName d woc) sc ad)])"
proof -
  have key: "wf_namespace (wf woc) @ ''/'' @ getAgentPodName d woc = agentPodKey d woc"
    by (simp add: agentPodKey_def)
  from assms(2) have miss: "(case (if exists then obj else None) of
      Some (PodObj existing) \<Rightarrow> a existing | _ \<Rightarrow> b) = b" for a :: "pod \<Rightarrow> 'x" and b
    by (auto split: option.splits storeObj.splits)
  show ?thesis
    unfolding createAgentPod_def Let_def key
    using assms(1,3,4,5) by (simp add: miss split: option.splits)
qed

section \<open>Properties\<close>

subsection \<open>Creation races\<close>

text \<open>
  C1. When the creation call fails because the name is taken, the function should hand back
  the existing pod with a nil error. The code hands back the pointer that came with the
  error instead, whatever it is, and asks nobody for the existing pod: in the run below the
  informer store is empty, discovery succeeds, the creation API answers "already exists"
  together with a pointer \<open>r\<close>, and the result is \<open>r\<close> with a nil error, after one read
  of the store, two listings and the one creation call.
\<close>

theorem createAgentPod_AlreadyExists_returns_created:
  "createAgentPod demoDeps (demoWoc (demoCtl [] (createExists r))) [] =
     (Return (r, None),
      [StoreGet ''team-a/hello-agent-agent'',
       GetConfigMaps ''argo'' ''AgentPlugin'',
       GetConfigMaps ''team-a'' ''AgentPlugin'',
       PodsCreate ''team-a''
         (agentPod demoDeps (demoWoc (demoCtl [] (createExists r))) ''hello-agent-agent''
            [\<lparr>c_name = ''p1'', c_image = ''img1'', c_command = [''sh'', ''-c''],
              c_args = [], c_env = []\<rparr>]
            [''10.0.0.1:50051''])])"
proof -
  let ?woc = "demoWoc (demoCtl [] (createExists r))"
  have n: "getAgentPodName demoDeps ?woc = ''hello-agent-agent''"
    by (simp add: getAgentPodName_def NodeID_def demoDeps_def demoWoc_def helloWf_def)
  have ns: "wf_namespace (wf ?woc) = ''team-a''"
    by (simp add: demoWoc_def helloWf_def)
  have k: "namespaceKeys demoDeps ?woc = [''argo'', ''team-a'']"
    by (simp add: namespaceKeys_def demoWoc_def demoCtl_def demoDeps_def helloWf_def)
  have g: "getAgentPlugins demoDeps ?woc tr =
      (([\<lparr>c_name = ''p1'', c_image = ''img1'', c_command = [''sh'', ''-c''],
              c_args = [], c_env = []\<rparr>], [''10.0.0.1:50051''], None),
       tr @ [GetConfigMaps ''argo'' ''AgentPlugin'', GetConfigMaps ''team-a'' ''AgentPlugin''])" for tr
    unfolding getAgentPlugins_def k
    by (simp add: demoWoc_def demoCtl_def demoDeps_def plugin1_def)
  have st: "store_Get (ctl ?woc) key = (None, False, None)" for key
    by (simp add: demoWoc_def demoCtl_def)
  have cr: "pods_Create (ctl ?woc) n q =
      (r, Some (StatusError StatusReasonAlreadyExists ''pods hello-agent-agent already exists''))" for n q
    by (simp add: demoWoc_def demoCtl_def createExists_def)
  show ?thesis
    unfolding createAgentPod_def Let_def n ns st g cr by (simp split: option.splits)
qed

text \<open>
  C2. A nil error should come with a pod. In the run above with a client that answers a nil
  pointer next to "already exists", \<^verbatim>\<open>createAgentPod\<close> returns nil and nil, and the
  reconcile pass panics when it reads the pod's phase.
\<close>

theorem reconcileAgentPod_nil_pod_panics:
  "fst (reconcileAgentPod demoDeps (demoWoc (demoCtl [] (createExists None))) []) = Panic"
proof -
  let ?woc = "demoWoc (demoCtl [] (createExists None))"
  have s: "Mapping.size (taskSet ?woc) \<noteq> 0"
    by (simp add: demoWoc_def Mapping.size_def)
  have k: "namespaceKeys demoDeps ?woc = [''argo'', ''team-a'']"
    by (simp add: namespaceKeys_def demoWoc_def demoCtl_def demoDeps_def helloWf_def)
  have g: "\<exists>sc ad. getAgentPlugins demoDeps ?woc tr =
      ((sc, ad, None),
       tr @ [GetConfigMaps ''argo'' ''AgentPlugin'', GetConfigMaps ''team-a'' ''AgentPlugin''])" for tr
    unfolding getAgentPlugins_def k
    by (simp add: demoWoc_def demoCtl_def demoDeps_def plugin1_def)
  have st: "store_Get (ctl ?woc) key = (None, False, None)" for key
    by (simp add: demoWoc_def demoCtl_def)
  have cr: "pods_Create (ctl ?woc) n q =
      (None, Some (StatusError StatusReasonAlreadyExists ''pods hello-agent-agent already exists''))" for n q
    by (simp add: demoWoc_def demoCtl_def createExists_def)
  from g[of "[StoreGet (wf_namespace (wf ?woc) @ ''/'' @ getAgentPodName demoDeps ?woc)]"]
  have "fst (createAgentPod demoDeps ?woc []) = Return (None, None)"
    unfolding createAgentPod_def Let_def st cr by auto
  with s show ?thesis
    by (cases "createAgentPod demoDeps ?woc []") (simp add: reconcileAgentPod_def)
qed

subsection \<open>The phase table\<close>

text \<open>
  C3. The assessment takes the pod alone and has a value for every pod: the empty result for
  the phases Succeeded, Running and Pending; the workflow phase Failed with the pod's own
  message for Failed; and for every other phase string, the empty one included, the
  workflow phase Error with a message in which the pod's name and the phase occur.
\<close>

theorem assessAgentPodStatus_table:
  "(status_phase (pod_status p) \<in> {PodSucceeded, PodRunning, PodPending} \<longrightarrow>
      assessAgentPodStatus p = ('''', '''')) \<and>
   (status_phase (pod_status p) = PodFailed \<longrightarrow>
      assessAgentPodStatus p = (WorkflowFailed, status_message (pod_status p))) \<and>
   (status_phase (pod_status p) \<notin> {PodSucceeded, PodRunning, PodPending, PodFailed} \<longrightarrow>
      assessAgentPodStatus p =
        (WorkflowError,
         ''Unexpected pod phase for '' @ meta_name (pod_meta p) @ '': '' @ status_phase (pod_status p)) \<and>
      sublist (meta_name (pod_meta p)) (snd (assessAgentPodStatus p)) \<and>
      sublist (status_phase (pod_status p)) (snd (assessAgentPodStatus p)))"
proof -
  have distinct_phases: "PodFailed \<noteq> PodSucceeded" "PodFailed \<noteq> PodRunning" "PodFailed \<noteq> PodPending"
    by (simp_all add: PodFailed_def PodSucceeded_def PodRunning_def PodPending_def)
  have ok: "status_phase (pod_status p) \<in> {PodSucceeded, PodRunning, PodPending} \<Longrightarrow>
      assessAgentPodStatus p = ('''', '''')"
    by (auto simp: assessAgentPodStatus_def)
  have failed: "status_phase (pod_status p) = PodFailed \<Longrightarrow>
      assessAgentPodStatus p = (WorkflowFailed, status_message (pod_status p))"
    using distinct_phases by (simp add: assessAgentPodStatus_def)
  have other: "status_phase (pod_status p) \<notin> {PodSucceeded, PodRunning, PodPending, PodFailed} \<Longrightarrow>
      assessAgentPodStatus p =
        (WorkflowError,
         ''Unexpected pod phase for '' @ meta_name (pod_meta p) @ '': '' @ status_phase (pod_status p))"
    by (simp add: assessAgentPodStatus_def)
  have sub1: "sublist n (pre @ n @ post)" for n pre post :: string
    by (rule sublist_appendI)
  have sub2: "sublist ph (pre @ n @ sep @ ph)" for ph pre n sep :: string
    using sublist_appendI[of ph "pre @ n @ sep" "[]"] by simp
  show ?thesis
    using ok failed other sub1[of "meta_name (pod_meta p)" "''Unexpected pod phase for ''"]
      sub2[of "status_phase (pod_status p)" "''Unexpected pod phase for ''" "meta_name (pod_meta p)" "'': ''"]
    by (metis snd_conv)
qed

text \<open>
  The table at a running, a failed, an unknown and an unset phase.
\<close>

theorem assessAgentPodStatus_table_witness:
  "assessAgentPodStatus (cachedPod ''Running'' '''') = ('''', '''') \<and>
   assessAgentPodStatus (cachedPod ''Failed'' ''OOMKilled'') = (''Failed'', ''OOMKilled'') \<and>
   assessAgentPodStatus (cachedPod ''Unknown'' '''') =
     (''Error'', ''Unexpected pod phase for hello-agent-agent: Unknown'') \<and>
   assessAgentPodStatus (cachedPod '''' '''') =
     (''Error'', ''Unexpected pod phase for hello-agent-agent: '')"
  using assessAgentPodStatus_table[of "cachedPod ''Running'' ''''"]
    assessAgentPodStatus_table[of "cachedPod ''Failed'' ''OOMKilled''"]
    assessAgentPodStatus_table[of "cachedPod ''Unknown'' ''''"]
    assessAgentPodStatus_table[of "cachedPod '''' ''''"]
  by (simp add: cachedPod_def PodSucceeded_def PodRunning_def PodPending_def PodFailed_def
      WorkflowFailed_def WorkflowError_def)

subsection \<open>Propagating a failed pod\<close>

text \<open>
  C4, as amended. In a pass with a non-empty task set whose creation step returns a pod,
  the pass returns a nil error, and it calls \<^verbatim>\<open>markWorkflowError\<close> exactly once, with
  the text "agent pod failed with reason " followed by the assessed message, when the
  pod's phase is not empty and its assessment is Failed or Error; otherwise it does not
  call it. A pod with an empty phase is not assessed at all.
\<close>

theorem reconcileAgentPod_marks_once:
  assumes "Mapping.size (taskSet woc) \<noteq> 0"
    and "createAgentPod d woc tr = (Return (Some p, None), tr1)"
  shows "fst (reconcileAgentPod d woc tr) = Return None \<and>
    markCalls (snd (reconcileAgentPod d woc tr)) =
      markCalls tr @
      (if status_phase (pod_status p) \<noteq> '''' \<and>
          (fst (assessAgentPodStatus p) = WorkflowFailed \<or>
           fst (assessAgentPodStatus p) = WorkflowError)
       then [''agent pod failed with reason '' @ snd (assessAgentPodStatus p)]
       else [])"
proof -
  from createAgentPod_trace[of d woc tr] assms(2)
  have m: "markCalls tr1 = markCalls tr"
    by (auto simp: markCalls_append)
  obtain newPhase message where a: "assessAgentPodStatus p = (newPhase, message)"
    by (cases "assessAgentPodStatus p") auto
  show ?thesis
    using assms m a
    by (simp add: reconcileAgentPod_def updateAgentPodStatus_def markCalls_append)
qed

text \<open>
  A cached pod that failed with OOMKilled: one call, and the pass succeeds.
\<close>

theorem reconcileAgentPod_marks_once_witness:
  "fst (reconcileAgentPod demoDeps (demoWoc (cacheCtl (cachedPod ''Failed'' ''OOMKilled''))) []) = Return None \<and>
   markCalls (snd (reconcileAgentPod demoDeps (demoWoc (cacheCtl (cachedPod ''Failed'' ''OOMKilled''))) []))
     = [''agent pod failed with reason OOMKilled'']"
proof -
  have h1: "Mapping.size (taskSet (demoWoc (cacheCtl (cachedPod ''Failed'' ''OOMKilled'')))) \<noteq> 0"
    by (simp add: demoWoc_def Mapping.size_def)
  have h2: "createAgentPod demoDeps (demoWoc (cacheCtl (cachedPod ''Failed'' ''OOMKilled''))) [] =
      (Return (Some (cachedPod ''Failed'' ''OOMKilled''), None), [StoreGet ''team-a/hello-agent-agent''])"
    by (simp add: createAgentPod_def demoWoc_def cacheCtl_def demoCtl_def getAgentPodName_def
        NodeID_def demoDeps_def helloWf_def)
  have a: "assessAgentPodStatus (cachedPod ''Failed'' ''OOMKilled'') = (WorkflowFailed, ''OOMKilled'')"
    by (simp add: assessAgentPodStatus_def cachedPod_def PodSucceeded_def PodRunning_def
        PodPending_def PodFailed_def)
  have ph: "status_phase (pod_status (cachedPod ''Failed'' ''OOMKilled'')) \<noteq> ''''"
    by (simp add: cachedPod_def)
  from reconcileAgentPod_marks_once[OF h1 h2] a ph show ?thesis by simp
qed

text \<open>
  A cached pod with an empty phase: its assessment is Error, and yet the pass ends without
  a call to \<^verbatim>\<open>markWorkflowError\<close>; the only event is the read of the store.
\<close>

theorem reconcileAgentPod_marks_counterexample:
  "fst (assessAgentPodStatus (cachedPod '''' '''')) = WorkflowError \<and>
   reconcileAgentPod demoDeps (demoWoc (cacheCtl (cachedPod '''' ''''))) [] =
     (Return None, [StoreGet ''team-a/hello-agent-agent''])"
proof -
  have a: "fst (assessAgentPodStatus (cachedPod '''' '''')) = WorkflowError"
    by (simp add: assessAgentPodStatus_def cachedPod_def PodSucceeded_def PodRunning_def
        PodPending_def PodFailed_def)
  have s: "Mapping.size (taskSet (demoWoc (cacheCtl (cachedPod '''' '''')))) \<noteq> 0"
    by (simp add: demoWoc_def Mapping.size_def)
  have c: "createAgentPod demoDeps (demoWoc (cacheCtl (cachedPod '''' ''''))) [] =
      (Return (Some (cachedPod '''' ''''), None), [StoreGet ''team-a/hello-agent-agent''])"
    by (simp add: createAgentPod_def demoWoc_def cacheCtl_def demoCtl_def getAgentPodName_def
        NodeID_def demoDeps_def helloWf_def)
  have ph: "status_phase (pod_status (cachedPod '''' '''')) = ''''"
    by (simp add: cachedPod_def)
  from s c ph have "reconcileAgentPod demoDeps (demoWoc (cacheCtl (cachedPod '''' ''''))) [] =
     (Return None, [StoreGet ''team-a/hello-agent-agent''])"
    by (simp add: reconcileAgentPod_def)
  with a show ?thesis by simp
qed

subsection \<open>Plugin discovery\<close>

text \<open>
  C5. With plugins enabled and every namespace listed without error, one enumerated
  descriptor whose command or args field does not parse makes the whole discovery return
  a parse error with no sidecar and no address, whatever was processed before it.
\<close>

theorem getAgentPlugins_malformed_fails:
  assumes "ctl_plugins (ctl woc)"
    and "\<forall>ns\<in>set (namespaceKeys d woc). \<exists>cms. getConfigMaps (ctl woc) ns ''AgentPlugin'' = Inr cms"
    and "cm \<in> set (enumerated d woc)"
    and "malformed d cm"
  shows "\<exists>v pe. fst (getAgentPlugins d woc tr) = ([], [], Some (ParseError v pe))"
proof -
  from assms(1,3) obtain ns where "ns \<in> set (namespaceKeys d woc)" "cm \<in> set (listing woc ns)"
    by (auto simp: enumerated_def)
  from rangeNamespaces_malformed[OF assms(2) this assms(4)] assms(1)
  show ?thesis by (simp add: getAgentPlugins_def)
qed

text \<open>
  A malformed descriptor listed after two well-formed ones.
\<close>

theorem getAgentPlugins_malformed_fails_witness:
  "pluginBad \<in> set (enumerated demoDeps (demoWoc (demoCtl [plugin2, pluginBad] createOk))) \<and>
   malformed demoDeps pluginBad \<and>
   (\<exists>v pe. fst (getAgentPlugins demoDeps (demoWoc (demoCtl [plugin2, pluginBad] createOk)) []) =
      ([], [], Some (ParseError v pe)))"
proof -
  let ?woc = "demoWoc (demoCtl [plugin2, pluginBad] createOk)"
  have k: "namespaceKeys demoDeps ?woc = [''argo'', ''team-a'']"
    by (simp add: namespaceKeys_def demoWoc_def demoCtl_def demoDeps_def helloWf_def)
  have h1: "ctl_plugins (ctl ?woc)"
    by (simp add: demoWoc_def demoCtl_def)
  have h2: "\<forall>ns\<in>set (namespaceKeys demoDeps ?woc). \<exists>cms. getConfigMaps (ctl ?woc) ns ''AgentPlugin'' = Inr cms"
    unfolding k by (simp add: demoWoc_def demoCtl_def)
  have h3: "pluginBad \<in> set (enumerated demoDeps ?woc)"
    unfolding enumerated_def k by (simp add: listing_def demoWoc_def demoCtl_def)
  have h4: "malformed demoDeps pluginBad"
    by (simp add: malformed_def pluginBad_def demoDeps_def)
  from getAgentPlugins_malformed_fails[OF h1 h2 h3 h4, of "[]"] h3 h4 show ?thesis by simp
qed

text \<open>
  C6. After a successful discovery the address list is as long as the sidecar list, and at
  every index the sidecar's name and image and the address come from the same enumerated
  descriptor.
\<close>

theorem getAgentPlugins_addresses_match_sidecars:
  assumes "getAgentPlugins d woc tr = ((sc, ad, None), tr')"
  shows "length ad = length sc \<and> length sc = length (enumerated d woc) \<and>
    (\<forall>i<length sc.
       c_name (sc ! i) = cm_name (enumerated d woc ! i) \<and>
       c_image (sc ! i) = dataField (enumerated d woc ! i) ''image'' \<and>
       ad ! i = dataField (enumerated d woc ! i) ''address'')"
proof -
  let ?cms = "enumerated d woc"
  have eq: "ad = map (\<lambda>cm. dataField cm ''address'') ?cms \<and>
        map c_name sc = map cm_name ?cms \<and>
        map c_image sc = map (\<lambda>cm. dataField cm ''image'') ?cms"
  proof (cases "ctl_plugins (ctl woc)")
    case True
    with assms have "rangeNamespaces d woc (namespaceKeys d woc) [] [] tr = ((sc, ad, None), tr')"
      by (simp add: getAgentPlugins_def)
    from rangeNamespaces_ok[OF this] True show ?thesis by (simp add: enumerated_def)
  next
    case False
    with assms show ?thesis by (simp add: getAgentPlugins_def enumerated_def)
  qed
  then have ad: "ad = map (\<lambda>cm. dataField cm ''address'') ?cms"
    and nm: "map c_name sc = map cm_name ?cms"
    and im: "map c_image sc = map (\<lambda>cm. dataField cm ''image'') ?cms"
    by simp_all
  from nm have len: "length sc = length ?cms"
    by (metis length_map)
  have "c_name (sc ! i) = cm_name (?cms ! i) \<and>
       c_image (sc ! i) = dataField (?cms ! i) ''image'' \<and>
       ad ! i = dataField (?cms ! i) ''address''" if "i < length sc" for i
  proof -
    from that len have i: "i < length ?cms" by simp
    have "c_name (sc ! i) = map c_name sc ! i" using that by simp
    also have "\<dots> = cm_name (?cms ! i)" using nm i by simp
    finally have 1: "c_name (sc ! i) = cm_name (?cms ! i)" .
    have "c_image (sc ! i) = map c_image sc ! i" using that by simp
    also have "\<dots> = dataField (?cms ! i) ''image''" using im i by simp
    finally have 2: "c_image (sc ! i) = dataField (?cms ! i) ''image''" .
    have 3: "ad ! i = dataField (?cms ! i) ''address''"
      using i by (subst ad) simp
    from 1 2 3 show ?thesis by simp
  qed
  moreover have "length ad = length sc" using len by (subst ad) simp
  ultimately show ?thesis using len by simp
qed

text \<open>
  Two descriptors, one in each namespace.
\<close>

theorem getAgentPlugins_addresses_match_sidecars_witness:
  "fst (getAgentPlugins demoDeps (demoWoc (demoCtl [plugin2] createOk)) []) =
     ([\<lparr>c_name = ''p1'', c_image = ''img1'', c_command = [''sh'', ''-c''], c_args = [], c_env = []\<rparr>,
       \<lparr>c_name = ''p2'', c_image = ''img2'', c_command = [], c_args = [''serve''], c_env = []\<rparr>],
      [''10.0.0.1:50051'', ''10.0.0.2:50051''], None) \<and>
   enumerated demoDeps (demoWoc (demoCtl [plugin2] createOk)) = [plugin1, plugin2] \<and>
   [''10.0.0.1:50051'', ''10.0.0.2:50051''] ! 1 = dataField ([plugin1, plugin2] ! 1) ''address''"
proof -
  let ?woc = "demoWoc (demoCtl [plugin2] createOk)"
  let ?sc = "[\<lparr>c_name = ''p1'', c_image = ''img1'', c_command = [''sh'', ''-c''], c_args = [], c_env = []\<rparr>,
       \<lparr>c_name = ''p2'', c_image = ''img2'', c_command = [], c_args = [''serve''], c_env = []\<rparr>]"
  let ?ad = "[''10.0.0.1:50051'', ''10.0.0.2:50051'']"
  have k: "namespaceKeys demoDeps ?woc = [''argo'', ''team-a'']"
    by (simp add: namespaceKeys_def demoWoc_def demoCtl_def demoDeps_def helloWf_def)
  have e: "enumerated demoDeps ?woc = [plugin1, plugin2]"
    unfolding enumerated_def k by (simp add: listing_def demoWoc_def demoCtl_def)
  have g: "getAgentPlugins demoDeps ?woc [] =
      ((?sc, ?ad, None),
       [GetConfigMaps ''argo'' ''AgentPlugin'', GetConfigMaps ''team-a'' ''AgentPlugin''])"
    unfolding getAgentPlugins_def k
    by (simp add: demoWoc_def demoCtl_def demoDeps_def plugin1_def plugin2_def)
  from getAgentPlugins_addresses_match_sidecars[OF g]
  have "\<forall>i<length ?sc. ?ad ! i = dataField (enumerated demoDeps ?woc ! i) ''address''"
    by blast
  then have "1 < length ?sc \<longrightarrow> ?ad ! 1 = dataField (enumerated demoDeps ?woc ! 1) ''address''"
    by (rule spec)
  then have "?ad ! 1 = dataField (enumerated demoDeps ?woc ! 1) ''address''"
    by simp
  with g e show ?thesis by simp
qed

subsection \<open>The synthesized pod\<close>



subsection \<open>The reconcile pass\<close>

text \<open>
  C8. With an empty task set the pass returns a nil error and leaves the trace as it was:
  no read of the informer store, no listing of descriptors, no creation call.
\<close>

theorem reconcileAgentPod_empty_taskSet:
  "Mapping.size (taskSet woc) = 0 \<Longrightarrow> reconcileAgentPod d woc tr = (Return None, tr)"
  by (simp add: reconcileAgentPod_def)

text \<open>
  An operation context without tasks.
\<close>

theorem reconcileAgentPod_empty_taskSet_witness:
  "Mapping.size (taskSet ((demoWoc (demoCtl [plugin2] createOk))\<lparr>taskSet := Mapping.empty\<rparr>)) = 0 \<and>
   reconcileAgentPod demoDeps ((demoWoc (demoCtl [plugin2] createOk))\<lparr>taskSet := Mapping.empty\<rparr>) []
     = (Return None, [])"
proof -
  have h: "Mapping.size (taskSet ((demoWoc (demoCtl [plugin2] createOk))\<lparr>taskSet := Mapping.empty\<rparr>)) = 0"
    by (simp add: Mapping.size_def)
  from h reconcileAgentPod_empty_taskSet[OF h, of demoDeps "[]"] show ?thesis by simp
qed

subsection \<open>The pod name\<close>

text \<open>
  C9. The agent pod's name depends on the workflow's identifier alone: two operation
  contexts whose workflows have the same identifier get the same name.
\<close>

theorem getAgentPodName_deterministic:
  "wf_name (wf woc1) = wf_name (wf woc2) \<Longrightarrow> getAgentPodName d woc1 = getAgentPodName d woc2"
  by (simp add: getAgentPodName_def NodeID_def)

text \<open>
  The same workflow name in another namespace, with another controller.
\<close>

theorem getAgentPodName_deterministic_witness:
  "getAgentPodName demoDeps (demoWoc (demoCtl [] createOk)) =
   getAgentPodName demoDeps
     ((demoWoc (cacheCtl (cachedPod ''Running'' '''')))
        \<lparr>wf := helloWf\<lparr>wf_namespace := ''team-b'', wf_uid := ''uid-2''\<rparr>, taskSet := Mapping.empty\<rparr>)"
proof -
  have h: "wf_name (wf (demoWoc (demoCtl [] createOk))) =
     wf_name (wf ((demoWoc (cacheCtl (cachedPod ''Running'' '''')))
        \<lparr>wf := helloWf\<lparr>wf_namespace := ''team-b'', wf_uid := ''uid-2''\<rparr>, taskSet := Mapping.empty\<rparr>))"
    by (simp add: demoWoc_def)
  from getAgentPodName_deterministic[OF h] show ?thesis .
qed

text \<open>
  C10. A pod is the agent pod exactly when its name is the derived name; the namespace of
  the pod plays no part.
\<close>

theorem isAgentPod_name_only:
  "(isAgentPod d woc p \<longleftrightarrow> meta_name (pod_meta p) = getAgentPodName d woc) \<and>
   isAgentPod d woc (p\<lparr>pod_meta := (pod_meta p)\<lparr>meta_namespace := ns\<rparr>\<rparr>) = isAgentPod d woc p"
  by (simp add: isAgentPod_def)

text \<open>
  A pod of that name passes the test in its own namespace and in any other.
\<close>

theorem isAgentPod_name_only_witness:
  "isAgentPod demoDeps (demoWoc (demoCtl [] createOk)) (cachedPod ''Running'' '''') \<and>
   isAgentPod demoDeps (demoWoc (demoCtl [] createOk))
     ((cachedPod ''Running'' '''')\<lparr>pod_meta := (pod_meta (cachedPod ''Running'' ''''))\<lparr>meta_namespace := ''other''\<rparr>\<rparr>)"
proof -
  have n: "meta_name (pod_meta (cachedPod ''Running'' '''')) = getAgentPodName demoDeps (demoWoc (demoCtl [] createOk))"
    by (simp add: cachedPod_def getAgentPodName_def NodeID_def demoDeps_def demoWoc_def helloWf_def)
  with isAgentPod_name_only[of demoDeps "demoWoc (demoCtl [] createOk)" "cachedPod ''Running'' ''''" "''other''"]
  show ?thesis by simp
qed

end
